theory Spec2Isabelle
  imports Main "HOL-Library.Word"
begin

section \<open>The MCP STDIO to HTTP relay of bin/cli.js\<close>

text \<open>
  The relay reads newline-delimited JSON from standard input, obtains an OAuth access
  token (discovery, dynamic client registration, refresh or interactive login with PKCE),
  forwards each request to the remote endpoint and writes one JSON line per request.

  Strings are lists of 8-bit code units (\<^typ>\<open>char\<close>); JSON numbers are integers.
  The runtime's own primitives (the URL parser, \<open>JSON.parse\<close>, SHA-256, the random
  source) and everything the environment answers (HTTP replies, browser callbacks,
  elapsed time) are components of the \<open>world\<close> the functions run in, so every theorem
  holds for each of them. An \<open>async\<close> function is a function from the world to its outcome
  and the world it leaves; the handlers of the \<open>data\<close> events run one after another.
\<close>

subsection \<open>Base64 and PKCE\<close>

definition b64_alphabet :: string where
  "b64_alphabet = ''ABCDEFGHIJKLMNOPQRSTUVWXYZabcdefghijklmnopqrstuvwxyz0123456789+/''"

text \<open>\<open>Buffer.toString('base64')\<close>: three bytes become four characters, the last group is
  padded with \<open>=\<close>.\<close>

fun base64 :: "8 word list \<Rightarrow> string" where
  "base64 (a # b # c # rest) =
     [b64_alphabet ! (unat a div 4),
      b64_alphabet ! ((unat a mod 4) * 16 + unat b div 16),
      b64_alphabet ! ((unat b mod 16) * 4 + unat c div 64),
      b64_alphabet ! (unat c mod 64)] @ base64 rest"
| "base64 [a, b] =
     [b64_alphabet ! (unat a div 4),
      b64_alphabet ! ((unat a mod 4) * 16 + unat b div 16),
      b64_alphabet ! ((unat b mod 16) * 4),
      CHR ''='']"
| "base64 [a] =
     [b64_alphabet ! (unat a div 4),
      b64_alphabet ! ((unat a mod 4) * 16),
      CHR ''='', CHR ''='']"
| "base64 [] = []"

text \<open>\<open>s.replace(/x/g, y)\<close> for single characters, and \<open>s.replace(/x+$/, '')\<close>.\<close>

definition replace_all :: "char \<Rightarrow> char \<Rightarrow> string \<Rightarrow> string" where
  "replace_all x y s = map (\<lambda>c. if c = x then y else c) s"

definition strip_trailing :: "char \<Rightarrow> string \<Rightarrow> string" where
  "strip_trailing x s = rev (dropWhile (\<lambda>c. c = x) (rev s))"

definition b64url :: "8 word list \<Rightarrow> string" where
  "b64url buf =
     strip_trailing (CHR ''='')
       (replace_all (CHR ''/'') (CHR ''_'')
         (replace_all (CHR ''+'') (CHR ''-'') (base64 buf)))"

text \<open>The reference encoding the specification names: base64 over the URL-safe alphabet
  of RFC 4648, section 5, written without padding.\<close>

definition b64url_alphabet :: string where
  "b64url_alphabet = ''ABCDEFGHIJKLMNOPQRSTUVWXYZabcdefghijklmnopqrstuvwxyz0123456789-_''"

fun base64url_unpadded_ref :: "8 word list \<Rightarrow> string" where
  "base64url_unpadded_ref (a # b # c # rest) =
     [b64url_alphabet ! (unat a div 4),
      b64url_alphabet ! ((unat a mod 4) * 16 + unat b div 16),
      b64url_alphabet ! ((unat b mod 16) * 4 + unat c div 64),
      b64url_alphabet ! (unat c mod 64)] @ base64url_unpadded_ref rest"
| "base64url_unpadded_ref [a, b] =
     [b64url_alphabet ! (unat a div 4),
      b64url_alphabet ! ((unat a mod 4) * 16 + unat b div 16),
      b64url_alphabet ! ((unat b mod 16) * 4)]"
| "base64url_unpadded_ref [a] =
     [b64url_alphabet ! (unat a div 4),
      b64url_alphabet ! ((unat a mod 4) * 16)]"
| "base64url_unpadded_ref [] = []"

text \<open>A string as the bytes \<open>hash.update(string)\<close> digests.\<close>

definition utf8 :: "string \<Rightarrow> 8 word list" where
  "utf8 s = map (\<lambda>c. of_nat (of_char c)) s"

record pkce =
  code_verifier :: string
  code_challenge :: string


subsection \<open>JSON values and \<open>JSON.stringify\<close>\<close>

datatype json =
    JNull
  | JBool bool
  | JNum int
  | JStr string
  | JArr "json list"
  | JObj "(string \<times> json) list"

fun show_nat :: "nat \<Rightarrow> string" where
  "show_nat n =
     (if n < 10 then [''0123456789'' ! n]
      else show_nat (n div 10) @ [''0123456789'' ! (n mod 10)])"

declare show_nat.simps [simp del]

definition show_int :: "int \<Rightarrow> string" where
  "show_int i = (if i < 0 then CHR ''-'' # show_nat (nat (- i)) else show_nat (nat i))"

text \<open>\<open>QuoteJSONString\<close>: the quote and the backslash are escaped, control characters
  below 0x20 are written with their short escape or as \<open>\u00XX\<close>.\<close>

definition escape_char :: "char \<Rightarrow> string" where
  "escape_char c =
     (let n = (of_char c :: nat) in
      if c = CHR 0x22 then [CHR 0x5C, CHR 0x22]
      else if c = CHR 0x5C then [CHR 0x5C, CHR 0x5C]
      else if n = 8 then [CHR 0x5C, CHR ''b'']
      else if n = 9 then [CHR 0x5C, CHR ''t'']
      else if n = 10 then [CHR 0x5C, CHR ''n'']
      else if n = 12 then [CHR 0x5C, CHR ''f'']
      else if n = 13 then [CHR 0x5C, CHR ''r'']
      else if n < 32 then
        [CHR 0x5C, CHR ''u'', CHR ''0'', CHR ''0'',
         ''0123456789abcdef'' ! (n div 16), ''0123456789abcdef'' ! (n mod 16)]
      else [c])"

definition quote :: "string \<Rightarrow> string" where
  "quote s = [CHR 0x22] @ concat (map escape_char s) @ [CHR 0x22]"

fun join :: "string \<Rightarrow> string list \<Rightarrow> string" where
  "join sep [] = []"
| "join sep [x] = x"
| "join sep (x # y # ys) = x @ sep @ join sep (y # ys)"

fun stringify :: "json \<Rightarrow> string" where
  "stringify JNull = ''null''"
| "stringify (JBool b) = (if b then ''true'' else ''false'')"
| "stringify (JNum n) = show_int n"
| "stringify (JStr s) = quote s"
| "stringify (JArr xs) = ''['' @ join '','' (map stringify xs) @ '']''"
| "stringify (JObj kvs) =
     ''{'' @ join '','' (map (\<lambda>kv. quote (fst kv) @ '':'' @ stringify (snd kv)) kvs) @ ''}''"

subsection \<open>Records, replies and the world\<close>

text \<open>The three cached records and the bodies of the OAuth endpoints, with the fields the
  code reads. A string field is \<open>Some s\<close> when the JSON object holds the string \<open>s\<close>
  and \<open>None\<close> when the field is absent.\<close>

record as_metadata =
  issuer :: "string option"
  authorization_endpoint :: "string option"
  token_endpoint :: "string option"
  registration_endpoint :: "string option"

record prm =
  prm_authorization_servers :: "string list option"
  prm_authorization_server :: "string option"
  prm_issuer :: "string option"

record client =
  client_issuer :: "string option"
  client_id :: "string option"
  redirect_uris :: "string list"

record registration =
  reg_client_id :: "string option"
  reg_redirect_uris :: "string list option"

record token =
  access_token :: "string option"
  refresh_token :: "string option"
  expires_in :: "int option"
  expires_at :: "int option"
  other_fields :: "(string \<times> json) list"

record url =
  protocol :: string
  host :: string
  pathname :: string

text \<open>A call either returns, throws an \<open>Error\<close> (kept by its \<open>message\<close>), waits for ever on
  an event that never comes, or ends the process by an uncaught exception.\<close>

datatype 'a outcome = Returned 'a | Thrown string | Pending | Crashed string

text \<open>What \<open>fetch\<close> gives: a network failure, or a response with its status, its text and
  what \<open>res.json()\<close> makes of it (\<open>Inl\<close>: the message of the exception it raises).\<close>

datatype 'a reply = NetError string | Reply nat string "string + 'a"

text \<open>A request that reaches the local callback listener: its path and its \<open>code\<close> and
  \<open>state\<close> parameters, or a request line that \<open>new URL\<close> rejects.\<close>

datatype cb_request = Callback string "string option" "string option" | BadRequest string

datatype listener = NotListening | Listening | ClosingAt int

datatype net_call =
    Get string
  | PostRegistration string
  | PostToken string "(string \<times> string) list"
  | PostRemote json string
  | OpenBrowser string "(string \<times> string) list"

text \<open>The world: the clock (milliseconds), the three files (\<open>None\<close>: \<open>readJSON\<close> gives
  \<open>null\<close>), the replies each endpoint will give and the requests the browser will send
  (each with the time that passes before it arrives; when none is left, the call waits for
  ever), the runtime's primitives, and what the process has done so far: the calls it made,
  the lines it wrote, the state of its listener.\<close>

record world =
  clock :: int
  tokens_file :: "token option"
  discovery_file :: "as_metadata option"
  client_file :: "client option"
  prm_replies :: "(nat \<times> prm reply) list"
  as_replies :: "(nat \<times> as_metadata reply) list"
  registration_replies :: "(nat \<times> registration reply) list"
  token_replies :: "(nat \<times> token reply) list"
  remote_replies :: "(nat \<times> json reply) list"
  callbacks :: "(nat \<times> cb_request) list"
  random_source :: "nat \<Rightarrow> 8 word"
  random_used :: nat
  sha256 :: "8 word list \<Rightarrow> 8 word list"
  new_URL :: "string \<Rightarrow> url option"
  JSON_parse :: "string \<Rightarrow> json option"
  calls :: "net_call list"
  callback_responses :: "(nat \<times> string) list"
  listener :: listener
  stdout :: "string list"
  stderr :: "string list"

definition await ::
  "'a outcome \<times> world \<Rightarrow> ('a \<Rightarrow> world \<Rightarrow> 'b outcome \<times> world) \<Rightarrow> 'b outcome \<times> world" where
  "await r k =
     (case r of
        (Returned v, w) \<Rightarrow> k v w
      | (Thrown e, w) \<Rightarrow> (Thrown e, w)
      | (Pending, w) \<Rightarrow> (Pending, w)
      | (Crashed e, w) \<Rightarrow> (Crashed e, w))"

text \<open>JavaScript's truthiness of an optional string, and \<open>String(x)\<close>.\<close>

definition truthy :: "string option \<Rightarrow> bool" where
  "truthy x = (case x of None \<Rightarrow> False | Some s \<Rightarrow> s \<noteq> [])"

definition js_string :: "string option \<Rightarrow> string" where
  "js_string x = (case x of None \<Rightarrow> ''undefined'' | Some s \<Rightarrow> s)"

definition ok :: "nat \<Rightarrow> bool" where
  "ok status = (200 \<le> status \<and> status \<le> 299)"

definition now :: "world \<Rightarrow> int" where
  "now w = clock w div 1000"

definition REMOTE_MCP_URL :: string where
  "REMOTE_MCP_URL = ''http://127.0.0.1:4000/''"

definition OAUTH_REDIRECT_URI :: string where
  "OAUTH_REDIRECT_URI = ''http://127.0.0.1:38573/callback''"

definition OAUTH_SCOPES :: string where
  "OAUTH_SCOPES = ''openid profile mcp''"

definition RESOURCE_ORIGIN :: string where
  "RESOURCE_ORIGIN = ''http://127.0.0.1:4000''"

definition randomBytes :: "nat \<Rightarrow> world \<Rightarrow> 8 word list \<times> world" where
  "randomBytes n w =
     (map (random_source w) [random_used w ..< random_used w + n],
      w\<lparr>random_used := random_used w + n\<rparr>)"

definition genPKCE :: "world \<Rightarrow> pkce \<times> world" where
  "genPKCE w =
     (let (bytes, w1) = randomBytes 32 w;
          verifier = b64url bytes;
          challenge = sha256 w (utf8 verifier)
      in (\<lparr>code_verifier = verifier, code_challenge = b64url challenge\<rparr>, w1))"

subsection \<open>Discovery (RFC 9728 and RFC 8414)\<close>

definition fetchJSON :: "string \<Rightarrow> 'a reply \<Rightarrow> 'a outcome" where
  "fetchJSON u r =
     (case r of
        NetError m \<Rightarrow> Thrown m
      | Reply status txt body \<Rightarrow>
          if \<not> ok status then Thrown (u @ '' '' @ show_nat status)
          else (case body of Inl m \<Rightarrow> Thrown m | Inr v \<Rightarrow> Returned v))"

definition getPRM :: "string \<Rightarrow> world \<Rightarrow> prm outcome \<times> world" where
  "getPRM resourceOrigin w =
     (let u = resourceOrigin @ ''/.well-known/oauth-protected-resource'';
          w1 = w\<lparr>calls := calls w @ [Get u]\<rparr>
      in case prm_replies w1 of
           [] \<Rightarrow> (Pending, w1)
         | (d, r) # rest \<Rightarrow>
             (fetchJSON u r, w1\<lparr>clock := clock w1 + int d, prm_replies := rest\<rparr>))"

definition asWellKnownFromIssuer :: "world \<Rightarrow> string \<Rightarrow> string outcome" where
  "asWellKnownFromIssuer w iss =
     (case new_URL w iss of
        None \<Rightarrow> Thrown ''Invalid URL''
      | Some iu \<Rightarrow>
          (let base = protocol iu @ ''//'' @ host iu;
               path = strip_trailing (CHR ''/'') (pathname iu)
           in if path \<noteq> [] \<and> path \<noteq> ''/''
              then Returned (base @ ''/.well-known/oauth-authorization-server'' @ path)
              else Returned (base @ ''/.well-known/oauth-authorization-server'')))"

definition getASMetadata :: "string \<Rightarrow> world \<Rightarrow> as_metadata outcome \<times> world" where
  "getASMetadata iss w =
     await (asWellKnownFromIssuer w iss, w) (\<lambda>u w.
       (let w1 = w\<lparr>calls := calls w @ [Get u]\<rparr>
        in case as_replies w1 of
             [] \<Rightarrow> (Pending, w1)
           | (d, r) # rest \<Rightarrow>
               await (fetchJSON u r, w1\<lparr>clock := clock w1 + int d, as_replies := rest\<rparr>)
                 (\<lambda>json w2.
                    (Returned (if \<not> truthy (issuer json) then json\<lparr>issuer := Some iss\<rparr> else json),
                     w2))))"

definition prm_first_issuer :: "prm \<Rightarrow> string option" where
  "prm_first_issuer p =
     (let first = (case prm_authorization_servers p of Some (x # _) \<Rightarrow> Some x | _ \<Rightarrow> None)
      in if truthy first then first
         else if truthy (prm_authorization_server p) then prm_authorization_server p
         else prm_issuer p)"

definition discover :: "world \<Rightarrow> as_metadata outcome \<times> world" where
  "discover w =
     (if (case discovery_file w of Some cached \<Rightarrow> truthy (issuer cached) | None \<Rightarrow> False)
      then (Returned (the (discovery_file w)), w)
      else
        await (getPRM RESOURCE_ORIGIN w) (\<lambda>p w1.
          (let iss = prm_first_issuer p
           in if \<not> truthy iss then (Thrown ''[prm] no authorization server listed'', w1)
              else
                await (getASMetadata (js_string iss) w1) (\<lambda>asMeta w2.
                  if \<not> truthy (authorization_endpoint asMeta) \<or> \<not> truthy (token_endpoint asMeta)
                  then (Thrown ''[as] invalid AS metadata: missing endpoints'', w2)
                  else (Returned asMeta, w2\<lparr>discovery_file := Some asMeta\<rparr>)))))"

subsection \<open>Dynamic client registration and tokens\<close>

definition dynamicRegister :: "as_metadata \<Rightarrow> world \<Rightarrow> client outcome \<times> world" where
  "dynamicRegister as w =
     (if (case client_file w of Some cached \<Rightarrow> client_issuer cached = issuer as | None \<Rightarrow> False)
      then (Returned (the (client_file w)), w)
      else if \<not> truthy (registration_endpoint as)
      then (Thrown ''[oidc] no registration endpoint: enable DCR or pre-provision a client'', w)
      else
        (let w1 = w\<lparr>calls := calls w @ [PostRegistration (js_string (registration_endpoint as))]\<rparr>
         in case registration_replies w1 of
              [] \<Rightarrow> (Pending, w1)
            | (d, r) # rest \<Rightarrow>
                (let w2 = w1\<lparr>clock := clock w1 + int d, registration_replies := rest\<rparr>
                 in case r of
                      NetError m \<Rightarrow> (Thrown m, w2)
                    | Reply status txt body \<Rightarrow>
                        if \<not> ok status
                        then (Thrown (''[oidc] registration failed '' @ show_nat status @ '': '' @ txt), w2)
                        else (case body of
                                Inl m \<Rightarrow> (Thrown m, w2)
                              | Inr reg \<Rightarrow>
                                  (let meta = \<lparr>client_issuer = issuer as,
                                              client_id = reg_client_id reg,
                                              redirect_uris =
                                                (case reg_redirect_uris reg of
                                                   Some uris \<Rightarrow> uris
                                                 | None \<Rightarrow> [OAUTH_REDIRECT_URI])\<rparr>
                                   in (Returned meta, w2\<lparr>client_file := Some meta\<rparr>))))))"

definition fetchToken ::
  "as_metadata \<Rightarrow> client \<Rightarrow> (string \<times> string) list \<Rightarrow> world \<Rightarrow> token outcome \<times> world" where
  "fetchToken as cl params w =
     (let body = params @ [(''client_id'', js_string (client_id cl))];
          w1 = w\<lparr>calls := calls w @ [PostToken (js_string (token_endpoint as)) body]\<rparr>
      in case token_replies w1 of
           [] \<Rightarrow> (Pending, w1)
         | (d, r) # rest \<Rightarrow>
             (let w2 = w1\<lparr>clock := clock w1 + int d, token_replies := rest\<rparr>
              in case r of
                   NetError m \<Rightarrow> (Thrown m, w2)
                 | Reply status txt body \<Rightarrow>
                     if \<not> ok status
                     then (Thrown (''[oauth] token error '' @ show_nat status @ '': '' @ txt), w2)
                     else (case body of
                             Inl m \<Rightarrow> (Thrown m, w2)
                           | Inr tok \<Rightarrow>
                               (let lifetime =
                                      (case expires_in tok of
                                         Some n \<Rightarrow> if n \<noteq> 0 then n else 3600
                                       | None \<Rightarrow> 3600);
                                    tok' = tok\<lparr>expires_at := Some (now w2 + lifetime - 30)\<rparr>
                                in (Returned tok', w2\<lparr>tokens_file := Some tok'\<rparr>)))))"

definition ensureClient :: "as_metadata \<Rightarrow> world \<Rightarrow> client outcome \<times> world" where
  "ensureClient as w = dynamicRegister as w"

subsection \<open>Interactive login\<close>

text \<open>The request handler of the callback listener: the responses it writes (status and
  body) and how it settles the pending login, if it does.\<close>

definition callback_handler ::
  "string \<Rightarrow> cb_request \<Rightarrow> (nat \<times> string) list \<times> string outcome option" where
  "callback_handler state req =
     (case req of
        BadRequest m \<Rightarrow> ([], Some (Thrown m))
      | Callback path rc st \<Rightarrow>
          if path \<noteq> ''/callback'' then ([(404, [])], None)
          else if \<not> truthy rc \<or> st \<noteq> Some state
          then ([(400, ''OAuth failed'')], Some (Thrown ''state mismatch''))
          else ([(200, ''Login complete. You can close this window.'')],
                Some (Returned (js_string rc))))"

text \<open>The listener serves the requests in turn until one settles the login: the result,
  the time that passed, the responses written and the requests not yet served.\<close>

fun serve ::
  "string \<Rightarrow> (nat \<times> cb_request) list \<Rightarrow>
     string outcome \<times> nat \<times> (nat \<times> string) list \<times> (nat \<times> cb_request) list" where
  "serve state [] = (Pending, 0, [], [])"
| "serve state ((d, req) # rest) =
     (case callback_handler state req of
        (resp, Some r) \<Rightarrow> (r, d, resp, rest)
      | (resp, None) \<Rightarrow>
          (case serve state rest of
             (r, t, resps, rest') \<Rightarrow> (r, d + t, resp @ resps, rest')))"

text \<open>The port of the redirect URI is taken while a listener is open; a listener whose
  \<open>close\<close> is scheduled frees it when the timer has run.\<close>

definition port_in_use :: "world \<Rightarrow> bool" where
  "port_in_use w =
     (case listener w of
        NotListening \<Rightarrow> False
      | Listening \<Rightarrow> True
      | ClosingAt t \<Rightarrow> clock w < t)"

definition interactiveLogin :: "as_metadata \<Rightarrow> client \<Rightarrow> world \<Rightarrow> token outcome \<times> world" where
  "interactiveLogin conf cl w =
     (let (p, w1) = genPKCE w;
          (bytes, w2) = randomBytes 16 w1;
          state = b64url bytes
      in case new_URL w2 (js_string (authorization_endpoint conf)) of
           None \<Rightarrow> (Thrown ''Invalid URL'', w2)
         | Some authURL \<Rightarrow>
             if port_in_use w2 then (Crashed ''listen EADDRINUSE'', w2)
             else
               (let query =
                      [(''response_type'', ''code''),
                       (''client_id'', js_string (client_id cl)),
                       (''redirect_uri'', OAUTH_REDIRECT_URI),
                       (''scope'', OAUTH_SCOPES),
                       (''code_challenge_method'', ''S256''),
                       (''code_challenge'', code_challenge p),
                       (''state'', state)];
                    w3 = w2\<lparr>listener := Listening,
                            calls := calls w2 @
                              [OpenBrowser (js_string (authorization_endpoint conf)) query]\<rparr>
                in case serve state (callbacks w3) of
                     (r, t, resps, rest) \<Rightarrow>
                       (let w4 = w3\<lparr>clock := clock w3 + int t,
                                    callbacks := rest,
                                    callback_responses := callback_responses w3 @ resps\<rparr>
                        in case r of
                             Returned code \<Rightarrow>
                               fetchToken conf cl
                                 [(''grant_type'', ''authorization_code''),
                                  (''code'', code),
                                  (''redirect_uri'', OAUTH_REDIRECT_URI),
                                  (''code_verifier'', code_verifier p)]
                                 (w4\<lparr>listener := ClosingAt (clock w4 + 100)\<rparr>)
                           | Thrown e \<Rightarrow> (Thrown e, w4)
                           | Pending \<Rightarrow> (Pending, w4)
                           | Crashed e \<Rightarrow> (Crashed e, w4))))"

definition ensureToken :: "as_metadata \<Rightarrow> client \<Rightarrow> world \<Rightarrow> token outcome \<times> world" where
  "ensureToken as cl w =
     (case tokens_file w of
        None \<Rightarrow> interactiveLogin as cl w
      | Some tok \<Rightarrow>
          if (case expires_at tok of Some e \<Rightarrow> e > now w + 60 | None \<Rightarrow> False)
          then (Returned tok, w)
          else if truthy (refresh_token tok)
          then
            (case fetchToken as cl
                    [(''grant_type'', ''refresh_token''),
                     (''refresh_token'', js_string (refresh_token tok))] w of
               (Thrown e, w1) \<Rightarrow>
                 interactiveLogin as cl
                   (w1\<lparr>stderr := stderr w1 @
                      [''[oauth] refresh failed; interactive login next: '' @ e]\<rparr>)
             | other \<Rightarrow> other)
          else interactiveLogin as cl w)"

subsection \<open>The relay\<close>

definition forwardJsonRpcToRemote ::
  "json \<Rightarrow> string option \<Rightarrow> world \<Rightarrow> json outcome \<times> world" where
  "forwardJsonRpcToRemote json accessToken w =
     (let w1 = w\<lparr>calls := calls w @ [PostRemote json (''Bearer '' @ js_string accessToken)]\<rparr>
      in case remote_replies w1 of
           [] \<Rightarrow> (Pending, w1)
         | (d, r) # rest \<Rightarrow>
             (case r of
                NetError m \<Rightarrow> Thrown m
              | Reply status txt body \<Rightarrow>
                  if status = 401 then Thrown ''UNAUTHORIZED''
                  else if \<not> ok status
                  then Thrown (''[remote] '' @ show_nat status @ '': '' @ txt)
                  else (case body of Inl m \<Rightarrow> Thrown m | Inr v \<Rightarrow> Returned v),
              w1\<lparr>clock := clock w1 + int d, remote_replies := rest\<rparr>))"

text \<open>\<open>json.id ?? null\<close>: reading a property of \<open>null\<close> raises a \<open>TypeError\<close>, a missing
  property gives \<open>null\<close>.\<close>

definition id_or_null :: "json \<Rightarrow> string + json" where
  "id_or_null j =
     (case j of
        JNull \<Rightarrow> Inl ''Cannot read properties of null (reading 'id')''
      | JObj kvs \<Rightarrow> Inr (case map_of kvs ''id'' of Some v \<Rightarrow> v | None \<Rightarrow> JNull)
      | _ \<Rightarrow> Inr JNull)"

definition error_response :: "json \<Rightarrow> int \<Rightarrow> string \<Rightarrow> json" where
  "error_response ident code message =
     JObj [(''jsonrpc'', JStr ''2.0''),
           (''id'', ident),
           (''error'', JObj [(''code'', JNum code), (''message'', JStr message)])]"

definition handleRequest :: "json \<Rightarrow> world \<Rightarrow> json outcome \<times> world" where
  "handleRequest json w =
     await (discover w) (\<lambda>as w1.
       await (ensureClient as w1) (\<lambda>cl w2.
         await (ensureToken as cl w2) (\<lambda>tok w3.
           (case forwardJsonRpcToRemote json (access_token tok) w3 of
              (Thrown e, w4) \<Rightarrow>
                if e = ''UNAUTHORIZED''
                then await (ensureToken as cl w4) (\<lambda>tok' w5.
                       forwardJsonRpcToRemote json (access_token tok') w5)
                else (case id_or_null json of
                        Inl te \<Rightarrow> (Thrown te, w4)
                      | Inr ident \<Rightarrow> (Returned (error_response ident (- 32001) e), w4))
            | other \<Rightarrow> other))))"

subsection \<open>The STDIO loop\<close>

text \<open>\<open>String.prototype.trim\<close> over 8-bit code units: tab, line feed, vertical tab, form
  feed, carriage return, space and the no-break space are white space.\<close>

definition is_space :: "char \<Rightarrow> bool" where
  "is_space c = ((of_char c :: nat) \<in> {9, 10, 11, 12, 13, 32, 160})"

definition trim :: "string \<Rightarrow> string" where
  "trim s = rev (dropWhile is_space (rev (dropWhile is_space s)))"

fun index_of :: "char \<Rightarrow> string \<Rightarrow> nat option" where
  "index_of c [] = None"
| "index_of c (x # xs) = (if x = c then Some 0 else map_option Suc (index_of c xs))"

definition write_line :: "json \<Rightarrow> world \<Rightarrow> world" where
  "write_line v w = w\<lparr>stdout := stdout w @ [stringify v @ [CHR 0x0A]]\<rparr>"

text \<open>The body of the \<open>data\<close> handler after the chunk is appended: the loop over the
  complete lines of the buffer. It returns the buffer that is left. An exception that
  leaves the handler is an unhandled rejection, which ends the process.\<close>

function stdin_loop :: "string \<Rightarrow> world \<Rightarrow> unit outcome \<times> string \<times> world" where
  "stdin_loop buf w =
     (case index_of (CHR 0x0A) buf of
        None \<Rightarrow> (Returned (), buf, w)
      | Some i \<Rightarrow>
          (let line = trim (take i buf); buf' = drop (i + 1) buf
           in if line = [] then stdin_loop buf' w
              else (case JSON_parse w line of
                      None \<Rightarrow>
                        stdin_loop buf' (write_line (error_response JNull (- 32700) ''Parse error'') w)
                    | Some j \<Rightarrow>
                        (case handleRequest j w of
                           (Returned r, w1) \<Rightarrow> stdin_loop buf' (write_line r w1)
                         | (Thrown e, w1) \<Rightarrow>
                             (case id_or_null j of
                                Inl te \<Rightarrow> (Crashed te, buf', w1)
                              | Inr ident \<Rightarrow>
                                  stdin_loop buf' (write_line (error_response ident (- 32000) e) w1))
                         | (Pending, w1) \<Rightarrow> (Pending, buf', w1)
                         | (Crashed e, w1) \<Rightarrow> (Crashed e, buf', w1)))))"
  by pat_completeness auto

termination stdin_loop
proof -
  have shorter: "i < length s" if "index_of c s = Some i" for c s i
    using that by (induction s arbitrary: i) (auto split: if_splits)
  show ?thesis
    by (relation "measure (\<lambda>(buf, w). length buf)") (auto dest: shorter)
qed

declare stdin_loop.simps [simp del]

definition on_data :: "string \<Rightarrow> string \<times> world \<Rightarrow> unit outcome \<times> string \<times> world" where
  "on_data chunk bw = stdin_loop (fst bw @ chunk) (snd bw)"

subsection \<open>Sample worlds\<close>

text \<open>Stand-ins for the runtime's primitives on the inputs of the examples below: a URL
  parser for URLs written \<open>scheme://host/path\<close> in serialised form, and \<open>JSON.parse\<close> on
  three lines.\<close>

definition simple_URL :: "string \<Rightarrow> url option" where
  "simple_URL s =
     (case index_of (CHR '':'') s of
        None \<Rightarrow> None
      | Some i \<Rightarrow>
          (let scheme = take i s;
               rest = drop (i + 3) s;
               delim = (\<lambda>c. c = CHR ''/'' \<or> c = CHR ''?'' \<or> c = CHR ''#'');
               authority = takeWhile (\<lambda>c. \<not> delim c) rest;
               path = takeWhile (\<lambda>c. c \<noteq> CHR ''?'' \<and> c \<noteq> CHR ''#'')
                        (dropWhile (\<lambda>c. \<not> delim c) rest)
           in if scheme = [] \<or> take 3 (drop i s) \<noteq> ''://'' \<or> authority = [] then None
              else Some \<lparr>protocol = scheme @ '':'', host = authority,
                         pathname = (if path = [] then ''/'' else path)\<rparr>))"

definition ping_request :: json where
  "ping_request = JObj [(''jsonrpc'', JStr ''2.0''), (''id'', JNum 1), (''method'', JStr ''ping'')]"

definition sample_JSON_parse :: "string \<Rightarrow> json option" where
  "sample_JSON_parse s =
     (if s = stringify ping_request then Some ping_request
      else if s = ''null'' then Some JNull
      else None)"

definition sample_as :: as_metadata where
  "sample_as =
     \<lparr>issuer = Some ''https://idp.example.com'',
      authorization_endpoint = Some ''https://idp.example.com/authorize'',
      token_endpoint = Some ''https://idp.example.com/token'',
      registration_endpoint = None\<rparr>"

definition sample_client :: client where
  "sample_client =
     \<lparr>client_issuer = Some ''https://idp.example.com'',
      client_id = Some ''relay-1'',
      redirect_uris = [OAUTH_REDIRECT_URI]\<rparr>"

definition sample_token :: "int \<Rightarrow> token" where
  "sample_token e =
     \<lparr>access_token = Some ''A1'', refresh_token = Some ''R1'',
      expires_in = Some 3600, expires_at = Some e, other_fields = []\<rparr>"

text \<open>A world at 1 700 000 000 s with cached discovery and client records and the token
  file, the replies and the callbacks given. A constant digest stands for SHA-256: no
  example depends on its value.\<close>

definition sample_world ::
  "token option \<Rightarrow> (nat \<times> token reply) list \<Rightarrow> (nat \<times> json reply) list \<Rightarrow>
     (nat \<times> cb_request) list \<Rightarrow> world" where
  "sample_world tok token_rs remote_rs cbs =
     \<lparr>clock = 1700000000000,
      tokens_file = tok,
      discovery_file = Some sample_as,
      client_file = Some sample_client,
      prm_replies = [],
      as_replies = [],
      registration_replies = [],
      token_replies = token_rs,
      remote_replies = remote_rs,
      callbacks = cbs,
      random_source = (\<lambda>n. of_nat n),
      random_used = 0,
      sha256 = (\<lambda>bytes. replicate 32 0),
      new_URL = simple_URL,
      JSON_parse = sample_JSON_parse,
      calls = [],
      callback_responses = [],
      listener = NotListening,
      stdout = [],
      stderr = []\<rparr>"

text \<open>The two character replacements of \<open>b64url\<close> as one map, and the parameters of the
  refresh grant that \<open>ensureToken\<close> sends.\<close>

definition url_char :: "char \<Rightarrow> char" where
  "url_char =
     (\<lambda>c. if c = CHR ''/'' then CHR ''_'' else c) \<circ> (\<lambda>c. if c = CHR ''+'' then CHR ''-'' else c)"

definition refresh_params :: "token \<Rightarrow> (string \<times> string) list" where
  "refresh_params tok =
     [(''grant_type'', ''refresh_token''), (''refresh_token'', js_string (refresh_token tok))]"

definition pong :: json where
  "pong = JObj [(''jsonrpc'', JStr ''2.0''), (''id'', JNum 1), (''result'', JStr ''pong'')]"

text \<open>A world whose cached token is an hour from expiry, whose remote endpoint answers the
  first request with 401 and the second with 200, and whose token endpoint would grant a
  refresh.\<close>

definition stale_world :: world where
  "stale_world =
     sample_world (Some (sample_token 1700003570))
       [(7, Reply 200 [] (Inr (sample_token 0)))]
       [(5, Reply 401 ''Unauthorized'' (Inl ''Unexpected token U'')),
        (5, Reply 200 [] (Inr pong))]
       []"

text \<open>A world with a cached discovery document that names no registration endpoint, and
  with no cached client registration.\<close>

definition unregistered_world :: world where
  "unregistered_world = (sample_world None [] [] [])\<lparr>client_file := None\<rparr>"

text \<open>The \<open>state\<close> parameter that \<open>interactiveLogin\<close> generates in a world: sixteen random
  bytes drawn after the thirty-two of the code verifier.\<close>

definition login_state :: "world \<Rightarrow> string" where
  "login_state w = b64url (fst (randomBytes 16 (snd (genPKCE w))))"

text \<open>A world whose cached token is within 60 seconds of expiry.\<close>

definition expired_world :: "(nat \<times> token reply) list \<Rightarrow> (nat \<times> cb_request) list \<Rightarrow> world" where
  "expired_world token_rs cbs = sample_world (Some (sample_token 1700000060)) token_rs [] cbs"

section \<open>Properties\<close>

subsection \<open>The PKCE challenge\<close>

lemma b64url_map: "b64url buf = strip_trailing (CHR ''='') (map url_char (base64 buf))"
  by (simp add: b64url_def replace_all_def url_char_def comp_def)

lemma length_b64_alphabet: "length b64_alphabet = 64"
  by (simp add: b64_alphabet_def)

lemma length_b64url_alphabet: "length b64url_alphabet = 64"
  by (simp add: b64url_alphabet_def)

lemma b64url_alphabet_map: "b64url_alphabet = map url_char b64_alphabet"
  by (simp add: b64url_alphabet_def b64_alphabet_def url_char_def)

lemma url_char_nth: "n < 64 \<Longrightarrow> url_char (b64_alphabet ! n) = b64url_alphabet ! n"
  by (simp add: b64url_alphabet_map length_b64_alphabet)

lemma pad_not_in_alphabet: "CHR ''='' \<notin> set b64url_alphabet"
  by (simp add: b64url_alphabet_def)

lemma url_nth_not_pad: "n < 64 \<Longrightarrow> b64url_alphabet ! n \<noteq> CHR ''=''"
  by (metis length_b64url_alphabet nth_mem pad_not_in_alphabet)

lemma url_char_pad: "url_char (CHR ''='') = CHR ''=''"
  by (simp add: url_char_def)

lemma byte_bound: "unat (a :: 8 word) < 256"
  using unsigned_less [of a, where 'a = nat] by simp

lemma sextet_bounds:
  "unat (a :: 8 word) div 4 < 64"
  "unat (a :: 8 word) mod 4 * 16 + unat (b :: 8 word) div 16 < 64"
  "unat (b :: 8 word) mod 16 * 4 + unat (c :: 8 word) div 64 < 64"
  "unat c mod 64 < 64"
  "unat b mod 16 * 4 < 64"
  "unat a mod 4 * 16 < 64"
  using byte_bound [of a] byte_bound [of b] byte_bound [of c] by simp_all

lemma strip_trailing_append:
  "strip_trailing x ys \<noteq> [] \<Longrightarrow> strip_trailing x (xs @ ys) = xs @ strip_trailing x ys"
  by (auto simp add: strip_trailing_def dropWhile_append)

lemma strip_trailing_Cons:
  "strip_trailing x ys \<noteq> [] \<Longrightarrow> strip_trailing x (c # ys) = c # strip_trailing x ys"
  using strip_trailing_append [of x ys "[c]"] by simp

lemma strip_trailing_keep: "s \<noteq> [] \<Longrightarrow> last s \<noteq> x \<Longrightarrow> strip_trailing x s = s"
  by (cases s rule: rev_cases) (simp_all add: strip_trailing_def)

lemma ref_nonempty: "bs \<noteq> [] \<Longrightarrow> base64url_unpadded_ref bs \<noteq> []"
  by (induction bs rule: base64url_unpadded_ref.induct) simp_all

lemma strip_map_base64:
  "strip_trailing (CHR ''='') (map url_char (base64 bs)) = base64url_unpadded_ref bs"
proof (induction bs rule: base64.induct)
  case (1 a b c rest)
  show ?case
  proof (cases "rest = []")
    case True
    then show ?thesis
      by (simp add: url_char_nth sextet_bounds strip_trailing_keep url_nth_not_pad)
  next
    case False
    then have "strip_trailing (CHR ''='') (map url_char (base64 rest)) \<noteq> []"
      using 1 ref_nonempty by simp
    then show ?thesis
      using 1 by (simp add: url_char_nth sextet_bounds strip_trailing_Cons)
  qed
next
  case (2 a b)
  then show ?case
    by (simp add: url_char_nth sextet_bounds url_char_pad strip_trailing_def url_nth_not_pad)
next
  case (3 a)
  then show ?case
    by (simp add: url_char_nth sextet_bounds url_char_pad strip_trailing_def url_nth_not_pad)
next
  case 4
  then show ?case by (simp add: strip_trailing_def)
qed

lemma b64url_is_reference: "b64url bs = base64url_unpadded_ref bs"
  by (simp add: b64url_map strip_map_base64)

text \<open>
  C5. For every generated PKCE pair, the code challenge is the URL-safe, unpadded base64
  encoding (the reference encoding \<open>base64url_unpadded_ref\<close>) of the SHA-256 digest of the
  code verifier, whatever the random bytes and whatever function the runtime's SHA-256 is.
\<close>

theorem genPKCE_challenge_is_reference:
  "code_challenge (fst (genPKCE w)) =
     base64url_unpadded_ref (sha256 w (utf8 (code_verifier (fst (genPKCE w)))))"
  by (simp add: genPKCE_def randomBytes_def b64url_is_reference Let_def)

subsection \<open>The metadata URL of an issuer\<close>

lemma strip_trailing_replicate:
  assumes "p = [] \<or> last p \<noteq> x"
  shows "strip_trailing x (p @ replicate k x) = p"
proof -
  have "dropWhile (\<lambda>c. c = x) (replicate k x @ rev p) = dropWhile (\<lambda>c. c = x) (rev p)"
    by (rule dropWhile_append2) simp
  moreover have "dropWhile (\<lambda>c. c = x) (rev p) = rev p"
    using assms by (cases p rule: rev_cases) auto
  ultimately show ?thesis by (simp add: strip_trailing_def)
qed

text \<open>
  C6. Let the issuer parse to a URL whose path is \<open>p\<close> followed by any number of slashes,
  \<open>p\<close> not ending in a slash. Then the metadata URL is the origin, the well-known segment
  and then \<open>p\<close>: for an issuer with a non-root path the segment stands before the path, and
  for an issuer with no path (\<open>p\<close> empty) the segment is appended to the origin.
\<close>

theorem asWellKnownFromIssuer_inserts_before_path:
  assumes "new_URL w iss = Some iu"
    and "pathname iu = p @ replicate k (CHR ''/'')"
    and "p = [] \<or> last p \<noteq> CHR ''/''"
  shows "asWellKnownFromIssuer w iss =
           Returned (protocol iu @ ''//'' @ host iu @
                     ''/.well-known/oauth-authorization-server'' @ p)"
proof -
  have "strip_trailing (CHR ''/'') (pathname iu) = p"
    using assms(2,3) by (simp add: strip_trailing_replicate)
  moreover have "p \<noteq> ''/''" using assms(3) by auto
  ultimately show ?thesis
    using assms(1) by (simp add: asWellKnownFromIssuer_def Let_def)
qed

lemma simple_URL_acme:
  "simple_URL ''https://idp.example.com/tenants/acme'' =
     Some \<lparr>protocol = ''https:'', host = ''idp.example.com'', pathname = ''/tenants/acme''\<rparr>"
  by (simp add: simple_URL_def)

lemma simple_URL_root:
  "simple_URL ''https://idp.example.com'' =
     Some \<lparr>protocol = ''https:'', host = ''idp.example.com'', pathname = ''/''\<rparr>"
  by (simp add: simple_URL_def)

text \<open>The two issuers of the specification.\<close>

theorem asWellKnownFromIssuer_examples:
  "asWellKnownFromIssuer (sample_world None [] [] []) ''https://idp.example.com/tenants/acme'' =
     Returned ''https://idp.example.com/.well-known/oauth-authorization-server/tenants/acme'' \<and>
   asWellKnownFromIssuer (sample_world None [] [] []) ''https://idp.example.com'' =
     Returned ''https://idp.example.com/.well-known/oauth-authorization-server''"
proof -
  let ?w = "sample_world None [] [] []"
  have u1: "new_URL ?w ''https://idp.example.com/tenants/acme'' =
      Some \<lparr>protocol = ''https:'', host = ''idp.example.com'', pathname = ''/tenants/acme''\<rparr>"
    by (simp add: sample_world_def simple_URL_acme)
  have u2: "new_URL ?w ''https://idp.example.com'' =
      Some \<lparr>protocol = ''https:'', host = ''idp.example.com'', pathname = ''/''\<rparr>"
    by (simp add: sample_world_def simple_URL_root)
  show ?thesis
    using asWellKnownFromIssuer_inserts_before_path [OF u1, of "''/tenants/acme''" 0]
      asWellKnownFromIssuer_inserts_before_path [OF u2, of "[]" 1]
    by simp
qed

subsection \<open>The token lifecycle\<close>

lemmas sample_defs =
  sample_world_def sample_as_def sample_client_def sample_token_def
  truthy_def now_def js_string_def ok_def Let_def

text \<open>
  C3. When the token file holds a record whose \<open>expires_at\<close> is more than 60 seconds after
  the current time, \<open>ensureToken\<close> returns that record and leaves the world as it was: no
  reply is consumed, no call is logged, nothing is written.
\<close>

theorem ensureToken_fast_path:
  assumes "tokens_file w = Some tok" and "expires_at tok = Some e" and "e > now w + 60"
  shows "ensureToken as cl w = (Returned tok, w) \<and>
         calls (snd (ensureToken as cl w)) = calls w"
  using assms by (simp add: ensureToken_def)

theorem ensureToken_fast_path_example:
  "tokens_file (sample_world (Some (sample_token 1700000061)) [] [] []) =
     Some (sample_token 1700000061) \<and>
   expires_at (sample_token 1700000061) = Some 1700000061 \<and>
   1700000061 > now (sample_world (Some (sample_token 1700000061)) [] [] []) + 60 \<and>
   ensureToken sample_as sample_client (sample_world (Some (sample_token 1700000061)) [] [] []) =
     (Returned (sample_token 1700000061), sample_world (Some (sample_token 1700000061)) [] [] [])"
  using ensureToken_fast_path [of "sample_world (Some (sample_token 1700000061)) [] [] []"
      "sample_token 1700000061" 1700000061 sample_as sample_client]
  by (simp add: sample_world_def sample_token_def now_def)

lemma fetchToken_calls:
  "calls (snd (fetchToken as cl params w)) =
     calls w @ [PostToken (js_string (token_endpoint as))
                  (params @ [(''client_id'', js_string (client_id cl))])]"
  by (simp add: fetchToken_def Let_def split: list.splits reply.splits sum.splits prod.splits)

lemma fetchToken_written:
  assumes "tokens_file (snd (fetchToken as cl params w)) \<noteq> tokens_file w"
  shows "\<exists>d status txt tok rest.
           token_replies w = (d, Reply status txt (Inr tok)) # rest \<and> ok status"
  using assms
  by (auto simp add: fetchToken_def Let_def split: list.splits reply.splits sum.splits if_splits)

text \<open>
  C10. When the token endpoint answers with a status outside 200..299, \<open>fetchToken\<close> throws
  and the token file is what it was. In any world, the token file changes only when the
  reply had a success status and a body that parsed.
\<close>

theorem fetchToken_error_keeps_store:
  assumes "token_replies w = (d, Reply status txt body) # rest" and "\<not> ok status"
  shows "fst (fetchToken as cl params w) =
           Thrown (''[oauth] token error '' @ show_nat status @ '': '' @ txt) \<and>
         tokens_file (snd (fetchToken as cl params w)) = tokens_file w \<and>
         (tokens_file (snd (fetchToken as cl params v)) \<noteq> tokens_file v \<longrightarrow>
            (\<exists>d' status' txt' tok rest'.
               token_replies v = (d', Reply status' txt' (Inr tok)) # rest' \<and> ok status'))"
  using assms fetchToken_written [of as cl params v]
  by (simp add: fetchToken_def Let_def)

theorem fetchToken_error_keeps_store_example:
  "token_replies (sample_world (Some (sample_token 1700000000))
       [(7, Reply 400 ''invalid_grant'' (Inl ''Unexpected token i''))] [] []) =
     [(7, Reply 400 ''invalid_grant'' (Inl ''Unexpected token i''))] \<and>
   \<not> ok 400 \<and>
   fst (fetchToken sample_as sample_client (refresh_params (sample_token 1700000000))
          (sample_world (Some (sample_token 1700000000))
             [(7, Reply 400 ''invalid_grant'' (Inl ''Unexpected token i''))] [] [])) =
     Thrown ''[oauth] token error 400: invalid_grant'' \<and>
   tokens_file (snd (fetchToken sample_as sample_client (refresh_params (sample_token 1700000000))
          (sample_world (Some (sample_token 1700000000))
             [(7, Reply 400 ''invalid_grant'' (Inl ''Unexpected token i''))] [] []))) =
     Some (sample_token 1700000000)"
  using fetchToken_error_keeps_store
    [of "sample_world (Some (sample_token 1700000000))
           [(7, Reply 400 ''invalid_grant'' (Inl ''Unexpected token i''))] [] []"
        7 400 "''invalid_grant''" "Inl ''Unexpected token i''" "[]"
        sample_as sample_client "refresh_params (sample_token 1700000000)"]
  by (simp add: sample_world_def ok_def show_nat.simps)

text \<open>
  C7, as the claim states it, fails for a response that declares \<open>expires_in = 0\<close>: at
  1 700 000 000 s the record is stamped 1 700 003 570 (the default lifetime), not
  1 699 999 970.
\<close>

theorem fetchToken_zero_lifetime:
  "now (sample_world None [(0, Reply 200 [] (Inr ((sample_token 0)\<lparr>expires_in := Some 0\<rparr>)))] [] []) =
     1700000000 \<and>
   fst (fetchToken sample_as sample_client []
          (sample_world None
             [(0, Reply 200 [] (Inr ((sample_token 0)\<lparr>expires_in := Some 0\<rparr>)))] [] [])) =
     Returned ((sample_token 0)\<lparr>expires_in := Some 0, expires_at := Some 1700003570\<rparr>)"
  by (simp add: fetchToken_def sample_defs)

text \<open>
  C7, amended. After a reply with a success status and a parsed body, \<open>fetchToken\<close> returns
  the body with \<open>expires_at\<close> set to the epoch second at which the reply has arrived, plus the
  declared \<open>expires_in\<close> (3600 when it is absent or zero), minus 30; and the token file holds
  that record.
\<close>

theorem fetchToken_stamps_expiry:
  assumes "token_replies w = (d, Reply status txt (Inr tok)) # rest" and "ok status"
  shows "\<exists>tok' w'. fetchToken as cl params w = (Returned tok', w') \<and>
           tokens_file w' = Some tok' \<and>
           clock w' = clock w + int d \<and>
           tok' = tok\<lparr>expires_at := Some (now w' +
                    (case expires_in tok of
                       None \<Rightarrow> 3600
                     | Some n \<Rightarrow> if n = 0 then 3600 else n) - 30)\<rparr>"
  using assms by (cases "expires_in tok") (simp_all add: fetchToken_def Let_def now_def)

theorem fetchToken_stamps_expiry_example:
  "token_replies (sample_world None
       [(1500, Reply 200 [] (Inr ((sample_token 0)\<lparr>expires_in := Some 7200\<rparr>)))] [] []) =
     [(1500, Reply 200 [] (Inr ((sample_token 0)\<lparr>expires_in := Some 7200\<rparr>)))] \<and>
   ok 200 \<and>
   fst (fetchToken sample_as sample_client []
          (sample_world None
             [(1500, Reply 200 [] (Inr ((sample_token 0)\<lparr>expires_in := Some 7200\<rparr>)))] [] [])) =
     Returned ((sample_token 0)\<lparr>expires_in := Some 7200, expires_at := Some 1700007171\<rparr>) \<and>
   tokens_file (snd (fetchToken sample_as sample_client []
          (sample_world None
             [(1500, Reply 200 [] (Inr ((sample_token 0)\<lparr>expires_in := Some 7200\<rparr>)))] [] []))) =
     Some ((sample_token 0)\<lparr>expires_in := Some 7200, expires_at := Some 1700007171\<rparr>)"
  using fetchToken_stamps_expiry
    [of "sample_world None
           [(1500, Reply 200 [] (Inr ((sample_token 0)\<lparr>expires_in := Some 7200\<rparr>)))] [] []"
        1500 200 "[]" "(sample_token 0)\<lparr>expires_in := Some 7200\<rparr>" "[]"
        sample_as sample_client "[]"]
  by (auto simp add: sample_defs)

subsection \<open>Refresh before login\<close>

lemma interactiveLogin_calls:
  "\<exists>more. calls (snd (interactiveLogin conf cl w)) = calls w @ more"
  by (auto simp add: interactiveLogin_def genPKCE_def randomBytes_def Let_def fetchToken_calls
      split: option.splits prod.splits outcome.splits)

lemma fetchToken_stderr: "stderr (snd (fetchToken as cl params w)) = stderr w"
  by (simp add: fetchToken_def Let_def split: list.splits reply.splits sum.splits prod.splits)

lemma interactiveLogin_stderr: "stderr (snd (interactiveLogin conf cl w)) = stderr w"
  by (auto simp add: interactiveLogin_def genPKCE_def randomBytes_def Let_def fetchToken_stderr
      split: option.splits prod.splits outcome.splits)

lemma interactiveLogin_rejected:
  assumes "new_URL w (js_string (authorization_endpoint conf)) = Some u"
    and "\<not> port_in_use w"
    and "callbacks w = (d, Callback ''/callback'' rc st) # rest"
    and "\<not> truthy rc \<or> st \<noteq> Some (login_state w)"
  shows "fst (interactiveLogin conf cl w) = Thrown ''state mismatch''"
    and "listener (snd (interactiveLogin conf cl w)) = Listening"
  using assms
  by (auto simp add: interactiveLogin_def login_state_def genPKCE_def randomBytes_def Let_def
      port_in_use_def callback_handler_def split: listener.splits)

text \<open>
  C4. Let the token file hold a record that expires within 60 seconds and carries a
  refresh token (a non-empty string). Then the first call \<open>ensureToken\<close> makes is the
  refresh request to the token endpoint, so any browser login comes after it; when the
  refresh returns a record, \<open>ensureToken\<close> returns that record; and when the refresh throws,
  \<open>ensureToken\<close> logs the error and is the interactive login, whose outcome it gives in place
  of the refresh error.
\<close>

theorem ensureToken_refresh_before_login:
  assumes "tokens_file w = Some tok" and "expires_at tok = Some e" and "e \<le> now w + 60"
    and "truthy (refresh_token tok)"
  shows "(\<exists>more. calls (snd (ensureToken as cl w)) =
            calls w @ PostToken (js_string (token_endpoint as))
                        (refresh_params tok @ [(''client_id'', js_string (client_id cl))]) # more) \<and>
         (\<forall>t w'. fetchToken as cl (refresh_params tok) w = (Returned t, w') \<longrightarrow>
            ensureToken as cl w = (Returned t, w')) \<and>
         (\<forall>m w'. fetchToken as cl (refresh_params tok) w = (Thrown m, w') \<longrightarrow>
            ensureToken as cl w =
              interactiveLogin as cl
                (w'\<lparr>stderr := stderr w' @
                   [''[oauth] refresh failed; interactive login next: '' @ m]\<rparr>))"
proof -
  let ?R = "fetchToken as cl (refresh_params tok) w"
  let ?call = "PostToken (js_string (token_endpoint as))
      (refresh_params tok @ [(''client_id'', js_string (client_id cl))])"
  let ?note = "\<lambda>m. ''[oauth] refresh failed; interactive login next: '' @ m"
  have unfold: "ensureToken as cl w =
      (case ?R of
         (Thrown m, w1) \<Rightarrow> interactiveLogin as cl (w1\<lparr>stderr := stderr w1 @ [?note m]\<rparr>)
       | other \<Rightarrow> other)"
    using assms by (simp add: ensureToken_def refresh_params_def)
  have log: "calls (snd ?R) = calls w @ [?call]"
    by (rule fetchToken_calls)
  have first: "\<exists>more. calls (snd (ensureToken as cl w)) = calls w @ ?call # more"
  proof (cases ?R)
    case (Pair r w1)
    show ?thesis
    proof (cases r)
      case (Thrown m)
      obtain more where
        "calls (snd (interactiveLogin as cl (w1\<lparr>stderr := stderr w1 @ [?note m]\<rparr>))) =
           calls (w1\<lparr>stderr := stderr w1 @ [?note m]\<rparr>) @ more"
        using interactiveLogin_calls by blast
      then show ?thesis using Pair Thrown unfold log by simp
    qed (use Pair unfold log in simp_all)
  qed
  show ?thesis using first unfold by simp
qed

text \<open>A refresh that succeeds, and one that is refused and followed by a login whose callback
  carries no code.\<close>

theorem ensureToken_refresh_examples:
  "tokens_file (expired_world [(7, Reply 200 [] (Inr (sample_token 0)))] []) =
     Some (sample_token 1700000060) \<and>
   expires_at (sample_token 1700000060) = Some 1700000060 \<and>
   1700000060 \<le> now (expired_world [(7, Reply 200 [] (Inr (sample_token 0)))] []) + 60 \<and>
   truthy (refresh_token (sample_token 1700000060)) \<and>
   fst (ensureToken sample_as sample_client
          (expired_world [(7, Reply 200 [] (Inr (sample_token 0)))] [])) =
     Returned (sample_token 1700003570) \<and>
   calls (snd (ensureToken sample_as sample_client
          (expired_world [(7, Reply 200 [] (Inr (sample_token 0)))] []))) =
     [PostToken ''https://idp.example.com/token''
        [(''grant_type'', ''refresh_token''), (''refresh_token'', ''R1''),
         (''client_id'', ''relay-1'')]] \<and>
   fst (ensureToken sample_as sample_client
          (expired_world [(7, Reply 400 ''invalid_grant'' (Inl ''Unexpected token i''))]
             [(2000, Callback ''/callback'' None None)])) =
     Thrown ''state mismatch'' \<and>
   stderr (snd (ensureToken sample_as sample_client
          (expired_world [(7, Reply 400 ''invalid_grant'' (Inl ''Unexpected token i''))]
             [(2000, Callback ''/callback'' None None)]))) =
     [''[oauth] refresh failed; interactive login next: [oauth] token error 400: invalid_grant'']"
proof -
  let ?tok = "sample_token 1700000060"
  let ?w1 = "expired_world [(7, Reply 200 [] (Inr (sample_token 0)))] []"
  let ?w2 = "expired_world [(7, Reply 400 ''invalid_grant'' (Inl ''Unexpected token i''))]
               [(2000, Callback ''/callback'' None None)]"
  let ?m = "''[oauth] token error 400: invalid_grant''"
  let ?w2' = "?w2\<lparr>calls := [PostToken ''https://idp.example.com/token''
        [(''grant_type'', ''refresh_token''), (''refresh_token'', ''R1''),
         (''client_id'', ''relay-1'')]], clock := 1700000000007, token_replies := []\<rparr>"
  have h1: "tokens_file ?w1 = Some ?tok" and h1': "tokens_file ?w2 = Some ?tok"
    by (simp_all add: expired_world_def sample_world_def)
  have h2: "expires_at ?tok = Some 1700000060"
    by (simp add: sample_token_def)
  have h3: "1700000060 \<le> now ?w1 + 60" and h3': "1700000060 \<le> now ?w2 + 60"
    by (simp_all add: expired_world_def sample_world_def now_def)
  have h4: "truthy (refresh_token ?tok)"
    by (simp add: sample_token_def truthy_def)
  note ok1 = ensureToken_refresh_before_login [OF h1 h2 h3 h4, of sample_as sample_client]
  note ok2 = ensureToken_refresh_before_login [OF h1' h2 h3' h4, of sample_as sample_client]
  have r1: "fetchToken sample_as sample_client (refresh_params ?tok) ?w1 =
      (Returned (sample_token 1700003570),
       ?w1\<lparr>calls := [PostToken ''https://idp.example.com/token''
           [(''grant_type'', ''refresh_token''), (''refresh_token'', ''R1''),
            (''client_id'', ''relay-1'')]],
          clock := 1700000000007, token_replies := [],
          tokens_file := Some (sample_token 1700003570)\<rparr>)"
    by (simp add: fetchToken_def refresh_params_def expired_world_def sample_defs)
  have r2: "fetchToken sample_as sample_client (refresh_params ?tok) ?w2 = (Thrown ?m, ?w2')"
    by (simp add: fetchToken_def refresh_params_def expired_world_def sample_defs show_nat.simps)
  have e1: "ensureToken sample_as sample_client ?w1 = fetchToken sample_as sample_client (refresh_params ?tok) ?w1"
    using ok1 r1 by simp
  let ?w3 = "?w2'\<lparr>stderr := stderr ?w2' @ [''[oauth] refresh failed; interactive login next: '' @ ?m]\<rparr>"
  have e2: "ensureToken sample_as sample_client ?w2 = interactiveLogin sample_as sample_client ?w3"
    using ok2 r2 by simp
  have l1: "new_URL ?w3 (js_string (authorization_endpoint sample_as)) =
      Some \<lparr>protocol = ''https:'', host = ''idp.example.com'', pathname = ''/authorize''\<rparr>"
    by (simp add: expired_world_def sample_defs simple_URL_def)
  have l2: "\<not> port_in_use ?w3"
    by (simp add: expired_world_def sample_world_def port_in_use_def)
  have l3: "callbacks ?w3 = (2000, Callback ''/callback'' None None) # []"
    by (simp add: expired_world_def sample_world_def)
  have l4: "\<not> truthy None \<or> None \<noteq> Some (login_state ?w3)"
    by (simp add: truthy_def)
  have "fst (interactiveLogin sample_as sample_client ?w3) = Thrown ''state mismatch''"
    by (rule interactiveLogin_rejected(1) [OF l1 l2 l3 l4])
  moreover have "stderr (snd (interactiveLogin sample_as sample_client ?w3)) = stderr ?w3"
    by (rule interactiveLogin_stderr)
  moreover have "stderr ?w3 = [''[oauth] refresh failed; interactive login next: [oauth] token error 400: invalid_grant'']"
    by (simp add: expired_world_def sample_world_def)
  ultimately show ?thesis
    using h1 h2 h3 h4 e1 e2 r1 by simp
qed

subsection \<open>The callback listener\<close>

lemma fetchToken_listener: "listener (snd (fetchToken as cl params w)) = listener w"
  by (simp add: fetchToken_def Let_def split: list.splits reply.splits sum.splits prod.splits)

text \<open>On the path that captures a code, the listener is closed 100 ms later.\<close>

lemma interactiveLogin_accepted:
  assumes "new_URL w (js_string (authorization_endpoint conf)) = Some u"
    and "\<not> port_in_use w"
    and "callbacks w = (d, Callback ''/callback'' (Some code) (Some (login_state w))) # rest"
    and "code \<noteq> []"
  shows "listener (snd (interactiveLogin conf cl w)) = ClosingAt (clock w + int d + 100)"
  using assms
  by (simp add: interactiveLogin_def login_state_def genPKCE_def randomBytes_def Let_def
      port_in_use_def callback_handler_def truthy_def fetchToken_listener js_string_def
      split: listener.splits)

text \<open>
  C9 does not hold of the code. When the request to \<open>/callback\<close> lacks the code or carries
  another state, the login is rejected with \<open>state mismatch\<close> and nothing closes the
  listener: it is still listening when \<open>interactiveLogin\<close> has thrown, and the port stays
  taken at every later time.
\<close>

theorem interactiveLogin_failure_leaves_listener_open:
  assumes "new_URL w (js_string (authorization_endpoint conf)) = Some u"
    and "\<not> port_in_use w"
    and "callbacks w = (d, Callback ''/callback'' rc st) # rest"
    and "\<not> truthy rc \<or> st \<noteq> Some (login_state w)"
  shows "fst (interactiveLogin conf cl w) = Thrown ''state mismatch'' \<and>
         listener (snd (interactiveLogin conf cl w)) = Listening \<and>
         (\<forall>t. port_in_use ((snd (interactiveLogin conf cl w))\<lparr>clock := t\<rparr>))"
  using assms
  by (auto simp add: interactiveLogin_def login_state_def genPKCE_def randomBytes_def Let_def
      port_in_use_def callback_handler_def split: listener.splits)

lemma sample_login_state: "login_state (sample_world None [] [] cbs) = ''ICEiIyQlJicoKSorLC0uLw''"
  by (simp add: login_state_def genPKCE_def randomBytes_def sample_world_def Let_def) code_simp

text \<open>A callback without a code, and one with a forged state.\<close>

theorem interactiveLogin_failure_examples:
  "fst (interactiveLogin sample_as sample_client
          (sample_world None [] [] [(2000, Callback ''/callback'' None (Some ''ICEiIyQlJicoKSorLC0uLw''))])) =
     Thrown ''state mismatch'' \<and>
   listener (snd (interactiveLogin sample_as sample_client
          (sample_world None [] [] [(2000, Callback ''/callback'' None (Some ''ICEiIyQlJicoKSorLC0uLw''))]))) =
     Listening \<and>
   fst (interactiveLogin sample_as sample_client
          (sample_world None [] [] [(2000, Callback ''/callback'' (Some ''c0de'') (Some ''forged''))])) =
     Thrown ''state mismatch'' \<and>
   listener (snd (interactiveLogin sample_as sample_client
          (sample_world None [] [] [(2000, Callback ''/callback'' (Some ''c0de'') (Some ''forged''))]))) =
     Listening"
proof -
  let ?w1 = "sample_world None [] [] [(2000, Callback ''/callback'' None (Some ''ICEiIyQlJicoKSorLC0uLw''))]"
  let ?w2 = "sample_world None [] [] [(2000, Callback ''/callback'' (Some ''c0de'') (Some ''forged''))]"
  have u: "new_URL (sample_world None [] [] cbs) (js_string (authorization_endpoint sample_as)) =
      Some \<lparr>protocol = ''https:'', host = ''idp.example.com'', pathname = ''/authorize''\<rparr>" for cbs
    by (simp add: sample_defs simple_URL_def)
  have p: "\<not> port_in_use (sample_world None [] [] cbs)" for cbs
    by (simp add: sample_world_def port_in_use_def)
  have c1: "callbacks ?w1 = (2000, Callback ''/callback'' None (Some ''ICEiIyQlJicoKSorLC0uLw'')) # []"
    and c2: "callbacks ?w2 = (2000, Callback ''/callback'' (Some ''c0de'') (Some ''forged'')) # []"
    by (simp_all add: sample_world_def)
  have m1: "\<not> truthy None \<or> Some ''ICEiIyQlJicoKSorLC0uLw'' \<noteq> Some (login_state ?w1)"
    by (simp add: truthy_def)
  have m2: "\<not> truthy (Some ''c0de'') \<or> Some ''forged'' \<noteq> Some (login_state ?w2)"
    by (simp add: sample_login_state)
  show ?thesis
    using interactiveLogin_failure_leaves_listener_open [OF u p c1 m1, of sample_client]
      interactiveLogin_failure_leaves_listener_open [OF u p c2 m2, of sample_client]
    by simp
qed

subsection \<open>The retry after an authorization failure\<close>

text \<open>
  C1 does not hold of the code. In \<open>stale_world\<close> the first forward is answered with 401 and
  the second with 200. The second \<open>ensureToken\<close> finds the cached record still an hour from
  expiry and returns it: the retry carries the same bearer token, no request reaches the
  token endpoint (its reply is still waiting) and the token file is unchanged.
\<close>

theorem handleRequest_unauthorized_reuses_cached_token:
  "fst (handleRequest ping_request stale_world) = Returned pong \<and>
   calls (snd (handleRequest ping_request stale_world)) =
     [PostRemote ping_request ''Bearer A1'', PostRemote ping_request ''Bearer A1''] \<and>
   token_replies (snd (handleRequest ping_request stale_world)) = token_replies stale_world \<and>
   tokens_file (snd (handleRequest ping_request stale_world)) = tokens_file stale_world"
  by (simp add: handleRequest_def discover_def ensureClient_def dynamicRegister_def ensureToken_def
      forwardJsonRpcToRemote_def await_def stale_world_def sample_defs)

subsection \<open>The lines written\<close>

lemma index_of_line: "c \<notin> set l \<Longrightarrow> index_of c (l @ c # rest) = Some (length l)"
  by (induction l) auto

lemma index_of_none: "c \<notin> set s \<Longrightarrow> index_of c s = None"
  by (induction s) auto

lemma stdin_loop_no_line:
  "CHR 0x0A \<notin> set buf \<Longrightarrow> stdin_loop buf w = (Returned (), buf, w)"
  by (subst stdin_loop.simps) (simp add: index_of_none)

lemma stdin_loop_blank:
  assumes "CHR 0x0A \<notin> set l" and "trim l = []"
  shows "stdin_loop (l @ CHR 0x0A # rest) w = stdin_loop rest w"
  using assms by (subst stdin_loop.simps) (simp add: index_of_line Let_def)

lemma stdin_loop_thrown:
  assumes "CHR 0x0A \<notin> set l" and "trim l \<noteq> []" and "JSON_parse w (trim l) = Some j"
    and "handleRequest j w = (Thrown e, w1)" and "id_or_null j = Inr ident"
  shows "stdin_loop (l @ CHR 0x0A # rest) w =
           stdin_loop rest (write_line (error_response ident (- 32000) e) w1)"
  using assms by (subst stdin_loop.simps) (simp add: index_of_line Let_def)

lemma dynamicRegister_no_endpoint:
  assumes "\<not> truthy (registration_endpoint as)"
    and "client_file w = None \<or> (\<exists>c. client_file w = Some c \<and> client_issuer c \<noteq> issuer as)"
  shows "dynamicRegister as w =
           (Thrown ''[oidc] no registration endpoint: enable DCR or pre-provision a client'', w)"
  using assms by (auto simp add: dynamicRegister_def)

lemma handleRequest_no_endpoint:
  assumes "discover w = (Returned as, w1)"
    and "\<not> truthy (registration_endpoint as)"
    and "client_file w1 = None \<or> (\<exists>c. client_file w1 = Some c \<and> client_issuer c \<noteq> issuer as)"
  shows "handleRequest j w =
           (Thrown ''[oidc] no registration endpoint: enable DCR or pre-provision a client'', w1)"
  using assms(1) dynamicRegister_no_endpoint [OF assms(2,3)]
  by (simp add: handleRequest_def await_def ensureClient_def)

lemma ping_line:
  \<open>stringify ping_request = ''{"jsonrpc":"2.0","id":1,"method":"ping"}''\<close>
  by (simp add: ping_request_def quote_def escape_char_def show_int_def show_nat.simps)

lemma trim_ping: "trim (stringify ping_request) = stringify ping_request"
  unfolding ping_line by (simp add: trim_def is_space_def)

lemma ping_one_line: "CHR 0x0A \<notin> set (stringify ping_request)"
  unfolding ping_line by simp

lemma discover_unregistered: "discover unregistered_world = (Returned sample_as, unregistered_world)"
  by (simp add: discover_def unregistered_world_def sample_defs)

lemma no_endpoint_line:
  \<open>stringify (error_response (JNum 1) (- 32000)
      ''[oidc] no registration endpoint: enable DCR or pre-provision a client'') =
    ''{"jsonrpc":"2.0","id":1,"error":{"code":-32000,"message":"[oidc] no registration endpoint: enable DCR or pre-provision a client"}}''\<close>
  by (simp add: error_response_def quote_def escape_char_def show_int_def show_nat.simps)

text \<open>
  C2, as the claim states it, fails: with no registration endpoint and no cached client the
  line written carries the code -32000, since \<open>ensureClient\<close> throws outside the \<open>try\<close> of
  \<open>handleRequest\<close> and the error reaches the handler of the STDIO loop.
\<close>

theorem missing_registration_endpoint_code:
  \<open>on_data (''{"jsonrpc":"2.0","id":1,"method":"ping"}'' @ [CHR 0x0A]) ([], unregistered_world) =
     (Returned (), [],
      unregistered_world\<lparr>stdout :=
        [''{"jsonrpc":"2.0","id":1,"error":{"code":-32000,"message":"[oidc] no registration endpoint: enable DCR or pre-provision a client"}}'' @
         [CHR 0x0A]]\<rparr>)\<close>
proof -
  have parse: "JSON_parse unregistered_world (trim (stringify ping_request)) = Some ping_request"
    by (simp add: trim_ping unregistered_world_def sample_world_def sample_JSON_parse_def)
  have ne: "trim (stringify ping_request) \<noteq> []"
    by (simp add: ping_line trim_def is_space_def)
  have ident: "id_or_null ping_request = Inr (JNum 1)"
    by (simp add: id_or_null_def ping_request_def)
  have thrown: "handleRequest ping_request unregistered_world =
      (Thrown ''[oidc] no registration endpoint: enable DCR or pre-provision a client'',
       unregistered_world)"
    by (rule handleRequest_no_endpoint [OF discover_unregistered])
       (simp_all add: sample_as_def truthy_def unregistered_world_def)
  have "stdin_loop (stringify ping_request @ CHR 0x0A # []) unregistered_world =
      stdin_loop [] (write_line (error_response (JNum 1) (- 32000)
        ''[oidc] no registration endpoint: enable DCR or pre-provision a client'') unregistered_world)"
    by (rule stdin_loop_thrown [OF ping_one_line ne parse thrown ident])
  then show ?thesis
    unfolding ping_line [symmetric]
    by (simp add: on_data_def stdin_loop_no_line write_line_def no_endpoint_line
        unregistered_world_def sample_world_def del: stringify.simps)
qed

text \<open>
  C2, amended. Let a line hold a request other than \<open>null\<close>, let discovery give a document
  with no registration endpoint, and let no cached client registration match its issuer.
  Then the relay writes the error response with code -32000, the identifier of the request
  and the message that names the missing registration endpoint, and goes on with the rest
  of the buffer; when that holds no further line, the handler returns and the process lives.
\<close>

theorem missing_registration_endpoint_reported:
  assumes "CHR 0x0A \<notin> set l" and "trim l \<noteq> []" and "JSON_parse w (trim l) = Some j"
    and "id_or_null j = Inr ident"
    and "discover w = (Returned as, w1)"
    and "\<not> truthy (registration_endpoint as)"
    and "client_file w1 = None \<or> (\<exists>c. client_file w1 = Some c \<and> client_issuer c \<noteq> issuer as)"
  shows "stdin_loop (l @ CHR 0x0A # rest) w =
           stdin_loop rest
             (write_line
                (error_response ident (- 32000)
                   ''[oidc] no registration endpoint: enable DCR or pre-provision a client'')
                w1) \<and>
         (CHR 0x0A \<notin> set rest \<longrightarrow>
            stdin_loop (l @ CHR 0x0A # rest) w =
              (Returned (), rest,
               write_line
                 (error_response ident (- 32000)
                    ''[oidc] no registration endpoint: enable DCR or pre-provision a client'')
                 w1))"
  using stdin_loop_thrown [OF assms(1-3) handleRequest_no_endpoint [OF assms(5-7)] assms(4)]
  by (simp add: stdin_loop_no_line)

theorem missing_registration_endpoint_example:
  "CHR 0x0A \<notin> set (stringify ping_request) \<and>
   trim (stringify ping_request) \<noteq> [] \<and>
   JSON_parse unregistered_world (trim (stringify ping_request)) = Some ping_request \<and>
   id_or_null ping_request = Inr (JNum 1) \<and>
   discover unregistered_world = (Returned sample_as, unregistered_world) \<and>
   \<not> truthy (registration_endpoint sample_as) \<and>
   client_file unregistered_world = None \<and>
   stdin_loop (stringify ping_request @ CHR 0x0A # []) unregistered_world =
     (Returned (), [],
      write_line
        (error_response (JNum 1) (- 32000)
           ''[oidc] no registration endpoint: enable DCR or pre-provision a client'')
        unregistered_world)"
proof -
  have parse: "JSON_parse unregistered_world (trim (stringify ping_request)) = Some ping_request"
    by (simp add: trim_ping unregistered_world_def sample_world_def sample_JSON_parse_def)
  have ne: "trim (stringify ping_request) \<noteq> []"
    by (simp add: ping_line trim_def is_space_def)
  have ident: "id_or_null ping_request = Inr (JNum 1)"
    by (simp add: id_or_null_def ping_request_def)
  have ep: "\<not> truthy (registration_endpoint sample_as)"
    by (simp add: sample_as_def truthy_def)
  have cf: "client_file unregistered_world = None"
    by (simp add: unregistered_world_def)
  then have cf': "client_file unregistered_world = None \<or>
      (\<exists>c. client_file unregistered_world = Some c \<and> client_issuer c \<noteq> issuer sample_as)"
    by simp
  show ?thesis
    using missing_registration_endpoint_reported
      [OF ping_one_line ne parse ident discover_unregistered ep cf', of "[]"]
      ping_one_line ne parse ident discover_unregistered ep cf
    by (simp add: stdin_loop_no_line)
qed

lemma parse_error_line:
  \<open>stringify (error_response JNull (- 32700) ''Parse error'') =
     ''{"jsonrpc":"2.0","id":null,"error":{"code":-32700,"message":"Parse error"}}''\<close>
  by (simp add: error_response_def quote_def escape_char_def show_int_def show_nat.simps)

lemma stdin_loop_parse_error:
  assumes "CHR 0x0A \<notin> set l" and "trim l \<noteq> []" and "JSON_parse w (trim l) = None"
  shows "stdin_loop (l @ CHR 0x0A # rest) w =
           stdin_loop rest (write_line (error_response JNull (- 32700) ''Parse error'') w)"
  using assms by (subst stdin_loop.simps) (simp add: index_of_line Let_def)

text \<open>
  C8, as the claim states it, fails for a blank line: it is not valid JSON, and the relay
  writes nothing for it.
\<close>

theorem blank_line_is_skipped:
  "JSON_parse (sample_world None [] [] []) (trim ''   '') = None \<and>
   on_data (''   '' @ [CHR 0x0A]) ([], sample_world None [] [] []) =
     (Returned (), [], sample_world None [] [] [])"
proof -
  have t: "trim ''   '' = []"
    by (simp add: trim_def is_space_def)
  have "stdin_loop (''   '' @ CHR 0x0A # []) (sample_world None [] [] []) =
      stdin_loop [] (sample_world None [] [] [])"
    by (rule stdin_loop_blank) (simp_all add: t)
  then show ?thesis
    by (simp add: on_data_def stdin_loop_no_line t sample_world_def sample_JSON_parse_def
        ping_line)
qed

text \<open>
  C8, amended. For every line that is not blank and whose trimmed text \<open>JSON.parse\<close>
  rejects, the relay writes exactly the parse-error line and goes on with the rest of the
  buffer.
\<close>

theorem parse_error_reported_and_loop_continues:
  assumes "CHR 0x0A \<notin> set l" and "trim l \<noteq> []" and "JSON_parse w (trim l) = None"
  shows \<open>stdin_loop (l @ CHR 0x0A # rest) w =
           stdin_loop rest
             (w\<lparr>stdout := stdout w @
                [''{"jsonrpc":"2.0","id":null,"error":{"code":-32700,"message":"Parse error"}}'' @
                 [CHR 0x0A]]\<rparr>)\<close>
  using stdin_loop_parse_error [OF assms]
  by (simp add: write_line_def parse_error_line del: stringify.simps)

text \<open>Two malformed lines in one chunk: both are answered, the incomplete line stays in
  the buffer.\<close>

theorem parse_error_example:
  \<open>CHR 0x0A \<notin> set ''not json'' \<and>
   trim ''not json'' \<noteq> [] \<and>
   JSON_parse (sample_world None [] [] []) (trim ''not json'') = None \<and>
   stdin_loop (''not json'' @ CHR 0x0A # '' not json'' @ CHR 0x0A # ''rest'')
       (sample_world None [] [] []) =
     (Returned (), ''rest'',
      (sample_world None [] [] [])\<lparr>stdout :=
         [''{"jsonrpc":"2.0","id":null,"error":{"code":-32700,"message":"Parse error"}}'' @
          [CHR 0x0A],
          ''{"jsonrpc":"2.0","id":null,"error":{"code":-32700,"message":"Parse error"}}'' @
          [CHR 0x0A]]\<rparr>)\<close>
proof -
  let ?w = "sample_world None [] [] []"
  let ?line = \<open>''{"jsonrpc":"2.0","id":null,"error":{"code":-32700,"message":"Parse error"}}'' @ [CHR 0x0A]\<close>
  have t1: "trim ''not json'' = ''not json''" and t2: "trim '' not json'' = ''not json''"
    by (simp_all add: trim_def is_space_def)
  have n1: "CHR 0x0A \<notin> set ''not json''" and n2: "CHR 0x0A \<notin> set '' not json''"
    by simp_all
  have e1: "trim ''not json'' \<noteq> []" and e2: "trim '' not json'' \<noteq> []"
    by (simp_all add: t1 t2)
  have p: "JSON_parse (?w\<lparr>stdout := out\<rparr>) ''not json'' = None" for out
    by (simp add: sample_world_def sample_JSON_parse_def ping_line)
  have p1: "JSON_parse ?w (trim ''not json'') = None"
    using p [of "stdout ?w"] by (simp add: t1)
  have p2: "JSON_parse (?w\<lparr>stdout := stdout ?w @ [?line]\<rparr>) (trim '' not json'') = None"
    using p by (simp add: t2)
  show ?thesis
    using parse_error_reported_and_loop_continues [OF n1 e1 p1, of "'' not json'' @ CHR 0x0A # ''rest''"]
      parse_error_reported_and_loop_continues [OF n2 e2 p2, of "''rest''"]
      n1 e1 p1
    by (simp add: stdin_loop_no_line sample_world_def)
qed

end
